theory Spec2Isabelle
  imports Main
begin

section \<open>Values of the host language\<close>

text \<open>
  The identifiers, path parameters and query values the verb methods interpolate are
  numbers or strings. A number is an integer of magnitude below \<open>2^53\<close>, which a double
  holds exactly and a template literal prints in decimal notation, or \<open>NaN\<close>; how any
  other number is printed is left unspecified. \<open>undefined\<close> is \<open>None\<close> of an option
  type.
\<close>

datatype prim = Num int | NaN | Str string

fun truthy :: "prim option \<Rightarrow> bool" where
  "truthy None = False"
| "truthy (Some (Num n)) = (n \<noteq> 0)"
| "truthy (Some NaN) = False"
| "truthy (Some (Str s)) = (s \<noteq> [])"

text \<open>Truthiness of a value that is a string or \<open>undefined\<close>.\<close>

fun truthy_string :: "string option \<Rightarrow> bool" where
  "truthy_string None = False"
| "truthy_string (Some s) = (s \<noteq> [])"

fun digits :: "nat \<Rightarrow> string" where
  "digits n = (if n < 10 then [''0123456789'' ! n]
               else digits (n div 10) @ [''0123456789'' ! (n mod 10)])"

declare digits.simps [simp del]

definition string_of_int :: "int \<Rightarrow> string" where
  "string_of_int i = (if i < 0 then CHR ''-'' # digits (nat (- i)) else digits (nat i))"

text \<open>The string a template literal \<^verbatim>\<open>`${v}`\<close> produces.\<close>

fun template :: "prim option \<Rightarrow> string" where
  "template None = ''undefined''"
| "template (Some (Num n)) = (if \<bar>n\<bar> < 2 ^ 53 then string_of_int n else undefined)"
| "template (Some NaN) = ''NaN''"
| "template (Some (Str s)) = s"

text \<open>
  \<^verbatim>\<open>String.prototype.replace\<close> with a string pattern: the first occurrence of the
  pattern is replaced, the rest of the string is kept.
\<close>

fun replace :: "string \<Rightarrow> string \<Rightarrow> string \<Rightarrow> string" where
  "replace pat rep [] = (if pat = [] then rep else [])"
| "replace pat rep (x # xs) =
     (if take (length pat) (x # xs) = pat then rep @ drop (length pat) (x # xs)
      else x # replace pat rep xs)"

text \<open>
  A JSON body: \<open>null\<close> or \<open>undefined\<close>, a primitive value (a string, as the transport
  delivers an empty or unparsed body), or an object with string fields. Reading a field of
  \<open>null\<close> or \<open>undefined\<close> raises a \<open>TypeError\<close>; a primitive value has no field of its own.
\<close>

datatype body = Nullish | Plain string | Object "string \<rightharpoonup> string"

section \<open>Collaborators\<close>

text \<open>
  Modelled from the spec: the module \<^verbatim>\<open>constants/\<close> is not part of the sources. The two
  cookie keys of \<^verbatim>\<open>COOKIE.KEY\<close> are two distinct names; the other constants are
  parameters of the model.
\<close>

datatype cookie_key = ACCESS_TOKEN | REFRESH_TOKEN

datatype attr = Text string | Flag bool | Date int

record constants =
  COOKIE_EXPIRE_ACCESS_TOKEN :: int
  COOKIE_EXPIRE_REFRESH_TOKEN :: int
  COOKIE_CONFIG_DEFAULT :: "string \<rightharpoonup> attr"
  COOKIE_API_PATH_GET_NEW_ACCESS_TOKEN :: string
  STATUS_CODE_TOKEN_EXPIRE :: int
  METHOD_GET :: string
  METHOD_POST :: string
  METHOD_PUT :: string
  METHOD_PATCH :: string
  METHOD_DELETE :: string

text \<open>
  The world outside the client: the browser's cookie jar, the clock and the state of the
  network behind the transport. Every \<^verbatim>\<open>new Date()\<close> is one reading of the clock; the
  \<open>n\<close>-th reading returns \<open>clock n\<close> milliseconds.
\<close>

record cookie =
  cvalue :: string
  options :: "string \<rightharpoonup> attr"

record 'n world =
  jar :: "cookie_key \<rightharpoonup> cookie"
  clock :: "nat \<Rightarrow> int"
  reads :: nat
  net :: 'n

definition new_Date :: "'n world \<Rightarrow> int \<times> 'n world" where
  "new_Date w = (clock w (reads w), w\<lparr>reads := Suc (reads w)\<rparr>)"

text \<open>
  Modelled from the spec: the class \<^verbatim>\<open>Cookie\<close> of \<^verbatim>\<open>utils\<close> is not part of the sources.
  It is an accessor of the cookie jar: \<open>get\<close> returns the string stored under a key, or
  \<open>undefined\<close>; \<open>set\<close> stores a string under a key together with its options.
\<close>

definition Cookie_get :: "cookie_key \<Rightarrow> 'n world \<Rightarrow> string option" where
  "Cookie_get k w = map_option cvalue (jar w k)"

definition Cookie_set :: "cookie_key \<Rightarrow> string \<Rightarrow> (string \<rightharpoonup> attr) \<Rightarrow> 'n world \<Rightarrow> 'n world" where
  "Cookie_set k v opts w = w\<lparr>jar := (jar w)(k \<mapsto> \<lparr>cvalue = v, options = opts\<rparr>)\<rparr>"

section \<open>Requests, responses and the transport\<close>

record config =
  http_method :: string
  url :: string
  params :: "(string \<rightharpoonup> prim) option"
  data :: "body option"
  headers :: "(string \<rightharpoonup> string) option"

record response =
  status :: int
  res_headers :: "string \<rightharpoonup> string"
  res_data :: body

datatype rejection = AxiosError "response option" config | TypeError

text \<open>
  A promise has settled with a rejection (\<open>Inl\<close>) or a response (\<open>Inr\<close>), or never
  settles (\<open>None\<close>). The transport is the instance of the HTTP library: it takes a request
  configuration and returns a promise, changing the world. The promise is what the caller
  of the instance awaits: whatever the interceptors registered on the instance do to a
  request is done before it settles. The transport is a parameter of the client, and the
  properties below hold for every transport.
\<close>

type_synonym 'n promise = "(rejection + response) option \<times> 'n world"

type_synonym 'n transport = "config \<Rightarrow> 'n world \<Rightarrow> 'n promise"

text \<open>The library's \<^verbatim>\<open>instance.post(url, data)\<close> is the request of that configuration.\<close>

definition instance_post :: "'n transport \<Rightarrow> string \<Rightarrow> body \<Rightarrow> 'n world \<Rightarrow> 'n promise" where
  "instance_post inst u d w =
     inst \<lparr>http_method = ''post'', url = u, params = None, data = Some d, headers = None\<rparr> w"

section \<open>The client\<close>

record 'n Axios =
  axios_instance :: "'n transport"
  auth :: bool

definition spread :: "('k \<rightharpoonup> 'v) option \<Rightarrow> ('k \<rightharpoonup> 'v)" where
  "spread obj = (case obj of None \<Rightarrow> Map.empty | Some m \<Rightarrow> m)"

subsection \<open>Request interceptor\<close>

definition setAuthReq :: "config \<Rightarrow> 'n world \<Rightarrow> config" where
  "setAuthReq cfg w =
     cfg\<lparr>headers := Some ((spread (headers cfg))
        (''Authorization'' \<mapsto>
           template (map_option (\<lambda>v. Str (replace ''%'' '' '' v)) (Cookie_get ACCESS_TOKEN w))))\<rparr>"

definition reqMiddleWare :: "'n Axios \<Rightarrow> config \<Rightarrow> 'n world \<Rightarrow> config" where
  "reqMiddleWare self cfg w = (if auth self then setAuthReq cfg w else cfg)"

definition reqOnError :: "rejection \<Rightarrow> 'n world \<Rightarrow> 'n promise" where
  "reqOnError error w = (Some (Inl error), w)"

subsection \<open>Response interceptor\<close>

definition resMiddleWare :: "constants \<Rightarrow> response \<Rightarrow> 'n world \<Rightarrow> response \<times> 'n world" where
  "resMiddleWare c res w0 =
     (let authorization = res_headers res ''authorization'';
          refreshtoken = res_headers res ''refreshtoken'';
          (_, w1) = new_Date w0;
          (now, w2) = new_Date w1;
          validUntil = now + COOKIE_EXPIRE_ACCESS_TOKEN c;
          w3 = (if truthy_string authorization
                then Cookie_set ACCESS_TOKEN (the authorization)
                       ((COOKIE_CONFIG_DEFAULT c)(''expires'' \<mapsto> Date validUntil)) w2
                else w2);
          w6 = (if truthy_string refreshtoken
                then
                  (let (_, w4) = new_Date w3;
                       (now', w5) = new_Date w4;
                       validUntil' = now' + COOKIE_EXPIRE_REFRESH_TOKEN c
                   in Cookie_set REFRESH_TOKEN (the refreshtoken)
                        ((COOKIE_CONFIG_DEFAULT c)(''expires'' \<mapsto> Date validUntil')) w5)
                else w3)
      in (res, w6))"

text \<open>
  Reading the field \<open>accessToken\<close> of a response body (the destructuring pattern
  \<^verbatim>\<open>data: { accessToken }\<close>): a \<open>TypeError\<close> on \<open>null\<close> and \<open>undefined\<close>.
\<close>

fun get_field :: "body \<Rightarrow> string \<Rightarrow> rejection + string option" where
  "get_field Nullish f = Inl TypeError"
| "get_field (Plain s) f = Inr None"
| "get_field (Object flds) f = Inr (flds f)"

text \<open>The body \<^verbatim>\<open>{ refreshToken: v }\<close>; a field that is \<open>undefined\<close> is no field.\<close>

definition refresh_body :: "string option \<Rightarrow> body" where
  "refresh_body v = Object (\<lambda>f. if f = ''refreshToken'' then v else None)"

definition getNewToken :: "constants \<Rightarrow> 'n Axios \<Rightarrow> config \<Rightarrow> 'n world \<Rightarrow> 'n promise" where
  "getNewToken c self cfg w0 =
     (case instance_post (axios_instance self) (COOKIE_API_PATH_GET_NEW_ACCESS_TOKEN c)
             (refresh_body (Cookie_get REFRESH_TOKEN w0)) w0 of
        (None, w1) \<Rightarrow> (None, w1)
      | (Some (Inl error), w1) \<Rightarrow> (Some (Inl error), w1)
      | (Some (Inr response), w1) \<Rightarrow>
          (let (_, w2) = new_Date w1;
               (now, w3) = new_Date w2;
               validUntil = now + COOKIE_EXPIRE_REFRESH_TOKEN c
           in case get_field (res_data response) ''accessToken'' of
                Inl error \<Rightarrow> (Some (Inl error), w3)
              | Inr accessToken \<Rightarrow>
                  (let w4 = (if truthy_string accessToken
                             then Cookie_set ACCESS_TOKEN (the accessToken)
                                    ((COOKIE_CONFIG_DEFAULT c)(''expires'' \<mapsto> Date validUntil)) w3
                             else w3);
                       newConfig = cfg\<lparr>headers := Some ((spread (headers cfg))
                         (''Authorization'' \<mapsto>
                            template (map_option (\<lambda>v. Str (replace ''%'' '' '' v))
                              (Cookie_get ACCESS_TOKEN w4))))\<rparr>
                   in axios_instance self newConfig w4)))"

definition resOnError :: "constants \<Rightarrow> 'n Axios \<Rightarrow> rejection \<Rightarrow> 'n world \<Rightarrow> 'n promise" where
  "resOnError c self error w =
     (case error of
        AxiosError (Some r) cfg \<Rightarrow>
          (if status r = STATUS_CODE_TOKEN_EXPIRE c then getNewToken c self cfg w
           else (Some (Inl error), w))
      | _ \<Rightarrow> (Some (Inl error), w))"

text \<open>
  The condition of \<open>resOnError\<close> on a rejection: it carries a response and the status of
  the response is the token-expired status.
\<close>

definition token_expired :: "constants \<Rightarrow> rejection \<Rightarrow> bool" where
  "token_expired c error =
     (case error of
        AxiosError (Some r) cfg \<Rightarrow> status r = STATUS_CODE_TOKEN_EXPIRE c
      | _ \<Rightarrow> False)"

text \<open>
  Two parts of \<open>getNewToken\<close> by name: the configuration of the refresh request, and the
  world in which the original request is issued again once the refresh request has
  resolved in the world \<open>w1\<close> with the field \<open>accessToken\<close> of its body (two clock
  readings, and the access-token cookie written when the token is truthy).
\<close>

definition refresh_request :: "constants \<Rightarrow> 'n world \<Rightarrow> config" where
  "refresh_request c w =
     \<lparr>http_method = ''post'', url = COOKIE_API_PATH_GET_NEW_ACCESS_TOKEN c, params = None,
      data = Some (refresh_body (Cookie_get REFRESH_TOKEN w)), headers = None\<rparr>"

definition refreshed :: "constants \<Rightarrow> string option \<Rightarrow> 'n world \<Rightarrow> 'n world" where
  "refreshed c accessToken w1 =
     (let (_, w2) = new_Date w1;
          (now, w3) = new_Date w2;
          validUntil = now + COOKIE_EXPIRE_REFRESH_TOKEN c
      in if truthy_string accessToken
         then Cookie_set ACCESS_TOKEN (the accessToken)
                ((COOKIE_CONFIG_DEFAULT c)(''expires'' \<mapsto> Date validUntil)) w3
         else w3)"

subsection \<open>The constructor and the interceptors\<close>

text \<open>
  \<open>setInterceptor\<close> registers the four handlers on the instance the constructor has
  created. A request to the instance then passes the request interceptor, is sent by the
  adapter of the library, and its outcome passes the response interceptor:
  \<open>resMiddleWare\<close> on a response, \<open>resOnError\<close> on a rejection, whose result replaces
  the rejection. The handlers belong to the client that owns the instance, so the requests
  \<open>getNewToken\<close> makes go through the same interceptors. The first argument bounds how
  deep the handlers may call the instance again; a request beyond the bound never settles.
\<close>

primrec setInterceptor :: "nat \<Rightarrow> constants \<Rightarrow> bool \<Rightarrow> 'n transport \<Rightarrow> 'n transport" where
  "setInterceptor 0 c isAuthReq adapter = (\<lambda>cfg w. (None, w))"
| "setInterceptor (Suc n) c isAuthReq adapter =
     (\<lambda>cfg w.
        let self = \<lparr>axios_instance = setInterceptor n c isAuthReq adapter, auth = isAuthReq\<rparr>
        in case adapter (reqMiddleWare self cfg w) w of
             (None, w1) \<Rightarrow> (None, w1)
           | (Some (Inl error), w1) \<Rightarrow> resOnError c self error w1
           | (Some (Inr res), w1) \<Rightarrow>
               (let (res', w2) = resMiddleWare c res w1 in (Some (Inr res'), w2)))"

definition new_Axios :: "nat \<Rightarrow> constants \<Rightarrow> 'n transport \<Rightarrow> bool \<Rightarrow> 'n Axios" where
  "new_Axios n c adapter isAuthReq =
     \<lparr>axios_instance = setInterceptor n c isAuthReq adapter, auth = isAuthReq\<rparr>"

subsection \<open>Verb methods\<close>

definition get :: "constants \<Rightarrow> 'n Axios \<Rightarrow> string \<Rightarrow> 'n world \<Rightarrow> 'n promise" where
  "get c self endPoint w =
     axios_instance self
       \<lparr>http_method = METHOD_GET c, url = endPoint, params = None, data = None, headers = None\<rparr> w"

definition getByQuery ::
  "constants \<Rightarrow> 'n Axios \<Rightarrow> string \<Rightarrow> (string \<rightharpoonup> prim) \<Rightarrow> 'n world \<Rightarrow> 'n promise" where
  "getByQuery c self endPoint query w =
     axios_instance self
       \<lparr>http_method = METHOD_GET c, url = endPoint, params = Some (spread (Some query)),
        data = None, headers = None\<rparr> w"

definition getByParams :: "constants \<Rightarrow> 'n Axios \<Rightarrow> string \<Rightarrow> prim \<Rightarrow> 'n world \<Rightarrow> 'n promise" where
  "getByParams c self endPoint ps w =
     axios_instance self
       \<lparr>http_method = METHOD_GET c, url = endPoint @ ''/'' @ template (Some ps), params = None,
        data = None, headers = None\<rparr> w"

definition post :: "constants \<Rightarrow> 'n Axios \<Rightarrow> string \<Rightarrow> body \<Rightarrow> 'n world \<Rightarrow> 'n promise" where
  "post c self endPoint d w =
     axios_instance self
       \<lparr>http_method = METHOD_POST c, url = endPoint, params = None, data = Some d, headers = None\<rparr> w"

definition put ::
  "constants \<Rightarrow> 'n Axios \<Rightarrow> string \<Rightarrow> body \<Rightarrow> prim option \<Rightarrow> 'n world \<Rightarrow> 'n promise" where
  "put c self endPoint d id' w =
     axios_instance self
       \<lparr>http_method = METHOD_PUT c,
        url = (if truthy id' \<or> id' = Some (Str []) \<or> id' = Some (Num 0)
               then endPoint @ ''/'' @ template id' else endPoint),
        params = None, data = Some d, headers = None\<rparr> w"

definition patch :: "constants \<Rightarrow> 'n Axios \<Rightarrow> string \<Rightarrow> body \<Rightarrow> 'n world \<Rightarrow> 'n promise" where
  "patch c self endPoint d w =
     axios_instance self
       \<lparr>http_method = METHOD_PATCH c, url = endPoint, params = None, data = Some d, headers = None\<rparr> w"

definition delete :: "constants \<Rightarrow> 'n Axios \<Rightarrow> string \<Rightarrow> prim \<Rightarrow> 'n world \<Rightarrow> 'n promise" where
  "delete c self endPoint id' w =
     axios_instance self
       \<lparr>http_method = METHOD_DELETE c, url = endPoint @ ''/'' @ template (Some id'), params = None,
        data = None, headers = None\<rparr> w"

section \<open>A transport for concrete runs\<close>

text \<open>
  A transport that answers from a script and records every configuration it is sent. A
  request sent after the script has run out never settles.
\<close>

record network =
  replies :: "(rejection + response) list"
  sent :: "config list"

definition scripted :: "network transport" where
  "scripted cfg w =
     (case replies (net w) of
        [] \<Rightarrow> (None, w\<lparr>net := (net w)\<lparr>sent := sent (net w) @ [cfg]\<rparr>\<rparr>)
      | r # rs \<Rightarrow> (Some r, w\<lparr>net := \<lparr>replies = rs, sent = sent (net w) @ [cfg]\<rparr>\<rparr>))"

text \<open>
  The scripted transport as the adapter of an instance: a rejection carries the
  configuration of the request that was sent.
\<close>

definition dispatch :: "network transport" where
  "dispatch cfg w =
     (case scripted cfg w of
        (Some (Inl (AxiosError r cfg')), w1) \<Rightarrow> (Some (Inl (AxiosError r cfg)), w1)
      | p \<Rightarrow> p)"

section \<open>Concrete constants, clients and worlds\<close>

text \<open>
  A configuration of the constants, a client over the scripted transport, a world whose
  clock starts at 5000 ms and advances by one millisecond per reading, and a request.
\<close>

definition demo_constants :: constants where
  "demo_constants =
     \<lparr>COOKIE_EXPIRE_ACCESS_TOKEN = 1800000,
      COOKIE_EXPIRE_REFRESH_TOKEN = 1209600000,
      COOKIE_CONFIG_DEFAULT = [''path'' \<mapsto> Text ''/''],
      COOKIE_API_PATH_GET_NEW_ACCESS_TOKEN = ''/auth/token'',
      STATUS_CODE_TOKEN_EXPIRE = 401,
      METHOD_GET = ''get'', METHOD_POST = ''post'', METHOD_PUT = ''put'',
      METHOD_PATCH = ''patch'', METHOD_DELETE = ''delete''\<rparr>"

definition demo_client :: "bool \<Rightarrow> network Axios" where
  "demo_client a = \<lparr>axios_instance = scripted, auth = a\<rparr>"

definition demo_world ::
  "(cookie_key \<rightharpoonup> cookie) \<Rightarrow> (rejection + response) list \<Rightarrow> network world" where
  "demo_world j rs =
     \<lparr>jar = j, clock = (\<lambda>n. 5000 + int n), reads = 0, net = \<lparr>replies = rs, sent = []\<rparr>\<rparr>"

definition demo_config :: config where
  "demo_config = \<lparr>http_method = ''get'', url = ''items'', params = None, data = None,
                   headers = Some [''Accept'' \<mapsto> ''application/json'']\<rparr>"

definition token_cookie :: "string \<Rightarrow> cookie" where
  "token_cookie v = \<lparr>cvalue = v, options = Map.empty\<rparr>"

definition demo_response :: "int \<Rightarrow> (string \<rightharpoonup> string) \<Rightarrow> body \<Rightarrow> response" where
  "demo_response s h d = \<lparr>status = s, res_headers = h, res_data = d\<rparr>"

text \<open>
  A jar holding both tokens; a failure without a response (the network is down), a
  rejection with the token-expired status and one with another status; the answer of the
  refresh endpoint and an answer to the request itself.
\<close>

definition demo_jar :: "cookie_key \<rightharpoonup> cookie" where
  "demo_jar = [ACCESS_TOKEN \<mapsto> token_cookie ''old%tok'', REFRESH_TOKEN \<mapsto> token_cookie ''ref'']"

definition demo_failure :: rejection where
  "demo_failure = AxiosError None demo_config"

definition demo_expired :: rejection where
  "demo_expired = AxiosError (Some (demo_response 401 Map.empty Nullish)) demo_config"

definition server_error :: rejection where
  "server_error = AxiosError (Some (demo_response 500 Map.empty Nullish)) demo_config"

definition token_response :: response where
  "token_response = demo_response 200 Map.empty (Object [''accessToken'' \<mapsto> ''new%tok''])"

definition ok_response :: response where
  "ok_response = demo_response 200 Map.empty (Plain ''ok'')"

text \<open>
  The decoding as the specification words it, to compare with \<^const>\<open>replace\<close>: every
  occurrence of a character is replaced.
\<close>

definition replace_every :: "char \<Rightarrow> char \<Rightarrow> string \<Rightarrow> string" where
  "replace_every p r s = map (\<lambda>x. if x = p then r else x) s"

text \<open>
  Decimal notation, to compare with \<^const>\<open>template\<close> on numbers: the value of a string
  of digits, the integer a string with an optional minus sign denotes, and the strings
  that are the notation of an integer (digits only, no leading zero, no negative zero).
\<close>

definition decimal_value :: "string \<Rightarrow> nat" where
  "decimal_value s = foldl (\<lambda>v ch. 10 * v + (of_char ch - 48)) 0 s"

definition integer_of :: "string \<Rightarrow> int" where
  "integer_of s =
     (case s of
        [] \<Rightarrow> 0
      | ch # ds \<Rightarrow> if ch = CHR ''-'' then - int (decimal_value ds) else int (decimal_value s))"

definition canonical :: "string \<Rightarrow> bool" where
  "canonical s =
     (let ds = (case s of [] \<Rightarrow> [] | ch # r \<Rightarrow> if ch = CHR ''-'' then r else s)
      in ds \<noteq> [] \<and> set ds \<subseteq> set ''0123456789'' \<and> (hd ds = CHR ''0'' \<longrightarrow> s = ''0''))"

section \<open>Auxiliary facts\<close>

lemma replace_every_absent: "p \<notin> set s \<Longrightarrow> replace_every p r s = s"
  by (induction s) (auto simp: replace_every_def)

lemma replace_at_most_one:
  "length (filter (\<lambda>x. x = p) s) \<le> 1 \<Longrightarrow> replace [p] [r] s = replace_every p r s"
proof (induction s)
  case Nil
  then show ?case by (simp add: replace_every_def)
next
  case (Cons x xs)
  show ?case
  proof (cases "x = p")
    case True
    with Cons.prems have "p \<notin> set xs"
      by (auto simp: filter_empty_conv)
    then have "replace_every p r xs = xs" by (rule replace_every_absent)
    with True show ?thesis by (simp add: replace_every_def)
  next
    case False
    with Cons show ?thesis by (simp add: replace_every_def)
  qed
qed

text \<open>The three ways the refresh procedure ends once the refresh request has settled.\<close>

lemma getNewToken_rejected:
  assumes "instance_post (axios_instance self) (COOKIE_API_PATH_GET_NEW_ACCESS_TOKEN c)
             (refresh_body (Cookie_get REFRESH_TOKEN w)) w = (Some (Inl e), w1)"
  shows "getNewToken c self cfg w = (Some (Inl e), w1)"
  using assms by (simp add: getNewToken_def)

lemma getNewToken_resolved:
  assumes "instance_post (axios_instance self) (COOKIE_API_PATH_GET_NEW_ACCESS_TOKEN c)
             (refresh_body (Cookie_get REFRESH_TOKEN w)) w = (Some (Inr resp), w1)"
    and "get_field (res_data resp) ''accessToken'' = Inr a"
  shows "getNewToken c self cfg w =
           (let w3 = w1\<lparr>reads := reads w1 + 2\<rparr>;
                w4 = (if truthy_string a
                      then Cookie_set ACCESS_TOKEN (the a)
                             ((COOKIE_CONFIG_DEFAULT c)(''expires'' \<mapsto>
                                Date (clock w1 (reads w1 + 1) + COOKIE_EXPIRE_REFRESH_TOKEN c))) w3
                      else w3)
            in axios_instance self (setAuthReq cfg w4) w4)"
  using assms by (simp add: getNewToken_def new_Date_def setAuthReq_def Let_def)

lemma getNewToken_type_error:
  assumes "instance_post (axios_instance self) (COOKIE_API_PATH_GET_NEW_ACCESS_TOKEN c)
             (refresh_body (Cookie_get REFRESH_TOKEN w)) w = (Some (Inr resp), w1)"
    and "res_data resp = Nullish"
  shows "getNewToken c self cfg w = (Some (Inl TypeError), w1\<lparr>reads := reads w1 + 2\<rparr>)"
  using assms by (simp add: getNewToken_def new_Date_def Let_def)

lemma resOnError_expired:
  "status r = STATUS_CODE_TOKEN_EXPIRE c \<Longrightarrow>
     resOnError c self (AxiosError (Some r) cfg) w = getNewToken c self cfg w"
  by (simp add: resOnError_def)

lemma resOnError_not_expired:
  "\<not> token_expired c error \<Longrightarrow> resOnError c self error w = (Some (Inl error), w)"
  by (auto simp: resOnError_def token_expired_def split: rejection.split option.split)

lemma getNewToken_retries:
  assumes "axios_instance self (refresh_request c w) w = (Some (Inr resp), w1)"
    and "get_field (res_data resp) ''accessToken'' = Inr a"
  shows "getNewToken c self cfg w =
           axios_instance self (setAuthReq cfg (refreshed c a w1)) (refreshed c a w1)"
  using assms
  by (simp add: getNewToken_def instance_post_def refresh_request_def refreshed_def
      new_Date_def setAuthReq_def Let_def)

text \<open>One request to the instance of a client.\<close>

lemma fst_resMiddleWare: "fst (resMiddleWare c res w) = res"
  by (simp add: resMiddleWare_def Let_def split_beta)

lemma reqMiddleWare_new_Axios:
  "reqMiddleWare (new_Axios n c adapter a) cfg w = (if a then setAuthReq cfg w else cfg)"
  by (simp add: reqMiddleWare_def new_Axios_def)

lemma instance_step:
  "axios_instance (new_Axios (Suc n) c adapter a) cfg w =
     (case adapter (reqMiddleWare (new_Axios n c adapter a) cfg w) w of
        (None, w1) \<Rightarrow> (None, w1)
      | (Some (Inl error), w1) \<Rightarrow> resOnError c (new_Axios n c adapter a) error w1
      | (Some (Inr res), w1) \<Rightarrow> (Some (Inr res), snd (resMiddleWare c res w1)))"
  by (simp add: new_Axios_def Let_def split_beta fst_resMiddleWare
      split: option.split sum.split)

text \<open>
  A larger bound changes no promise that has settled: what a request settles with under
  one bound, it settles with under every larger one.
\<close>

lemma getNewToken_mono:
  assumes le: "\<And>cfg w r w'. inst cfg w = (Some r, w') \<Longrightarrow> inst' cfg w = (Some r, w')"
    and run: "getNewToken c \<lparr>axios_instance = inst, auth = a\<rparr> cfg w = (Some r, w')"
  shows "getNewToken c \<lparr>axios_instance = inst', auth = a\<rparr> cfg w = (Some r, w')"
proof -
  let ?self = "\<lparr>axios_instance = inst, auth = a\<rparr>"
  let ?self' = "\<lparr>axios_instance = inst', auth = a\<rparr>"
  let ?post = "\<lambda>s. instance_post (axios_instance s) (COOKIE_API_PATH_GET_NEW_ACCESS_TOKEN c)
      (refresh_body (Cookie_get REFRESH_TOKEN w)) w"
  obtain p w1 where p: "?post ?self = (p, w1)" by (cases "?post ?self")
  from run p obtain q where q: "p = Some q"
    by (cases p) (auto simp: getNewToken_def)
  from p q le have p': "?post ?self' = (Some q, w1)"
    by (simp add: instance_post_def)
  show ?thesis
  proof (cases q)
    case (Inl e)
    from p q Inl have "getNewToken c ?self cfg w = (Some (Inl e), w1)"
      by (intro getNewToken_rejected) simp
    moreover from p' Inl have "getNewToken c ?self' cfg w = (Some (Inl e), w1)"
      by (intro getNewToken_rejected) simp
    ultimately show ?thesis using run by simp
  next
    case (Inr resp)
    note post = p [unfolded q Inr] and post' = p' [unfolded Inr]
    show ?thesis
    proof (cases "get_field (res_data resp) ''accessToken''")
      case (Inl e)
      then have n: "res_data resp = Nullish" by (cases "res_data resp") simp_all
      show ?thesis
        using run getNewToken_type_error [OF post n, of cfg]
          getNewToken_type_error [OF post' n, of cfg]
        by simp
    next
      case (Inr tok)
      show ?thesis
        using run le getNewToken_resolved [OF post Inr, of cfg]
          getNewToken_resolved [OF post' Inr, of cfg]
        by (simp add: Let_def)
    qed
  qed
qed

lemma resOnError_mono:
  assumes le: "\<And>cfg w r w'. inst cfg w = (Some r, w') \<Longrightarrow> inst' cfg w = (Some r, w')"
    and run: "resOnError c \<lparr>axios_instance = inst, auth = a\<rparr> error w = (Some r, w')"
  shows "resOnError c \<lparr>axios_instance = inst', auth = a\<rparr> error w = (Some r, w')"
proof (cases "token_expired c error")
  case True
  then obtain r' cfg where "error = AxiosError (Some r') cfg"
    and "status r' = STATUS_CODE_TOKEN_EXPIRE c"
    by (auto simp: token_expired_def split: rejection.splits option.splits)
  with run getNewToken_mono [OF le] show ?thesis
    by (simp add: resOnError_def)
next
  case False
  with run show ?thesis by (simp add: resOnError_not_expired)
qed

lemma setInterceptor_mono:
  "setInterceptor n c a adapter cfg w = (Some r, w') \<Longrightarrow>
     setInterceptor (Suc n) c a adapter cfg w = (Some r, w')"
proof (induction n arbitrary: cfg w r w')
  case 0
  then show ?case by simp
next
  case (Suc n)
  let ?sent = "reqMiddleWare \<lparr>axios_instance = setInterceptor n c a adapter, auth = a\<rparr> cfg w"
  have same: "reqMiddleWare \<lparr>axios_instance = setInterceptor (Suc n) c a adapter, auth = a\<rparr> cfg w
      = ?sent"
    by (simp add: reqMiddleWare_def)
  obtain p w1 where p: "adapter ?sent w = (p, w1)" by (cases "adapter ?sent w")
  show ?case
  proof (cases p)
    case None
    with Suc.prems p show ?thesis by (simp add: Let_def)
  next
    case (Some q)
    show ?thesis
    proof (cases q)
      case (Inl e)
      with Suc.prems p Some
      have "resOnError c \<lparr>axios_instance = setInterceptor n c a adapter, auth = a\<rparr> e w1
          = (Some r, w')"
        by (simp add: Let_def)
      then have "resOnError c \<lparr>axios_instance = setInterceptor (Suc n) c a adapter, auth = a\<rparr> e w1
          = (Some r, w')"
        by (rule resOnError_mono [rotated]) (rule Suc.IH)
      with p Some Inl same show ?thesis
        by (simp add: Let_def del: setInterceptor.simps
            add: setInterceptor.simps(2) [of "Suc n"])
    next
      case (Inr res)
      with Suc.prems p Some same show ?thesis
        by (simp add: Let_def del: setInterceptor.simps
            add: setInterceptor.simps(2) [of "Suc n"] setInterceptor.simps(2) [of n])
    qed
  qed
qed

text \<open>The digits of a number are its decimal notation.\<close>

lemma digit_cases:
  "d < 10 \<Longrightarrow>
     d = 0 \<or> d = 1 \<or> d = 2 \<or> d = 3 \<or> d = 4 \<or> d = 5 \<or> d = 6 \<or> d = 7 \<or> d = 8 \<or> d = (9::nat)"
  by arith

lemma digit_char:
  assumes "d < 10"
  shows "of_char (''0123456789'' ! d) = 48 + d"
    and "''0123456789'' ! d \<in> set ''0123456789''"
    and "''0123456789'' ! d = CHR ''0'' \<longleftrightarrow> d = 0"
  using digit_cases [OF assms] by auto

lemma decimal_value_snoc:
  "decimal_value (s @ [ch]) = 10 * decimal_value s + (of_char ch - 48)"
  by (simp add: decimal_value_def)

lemma digits_nonempty: "digits m \<noteq> []"
  by (subst digits.simps) simp

lemma decimal_value_digits: "decimal_value (digits m) = m"
proof (induction m rule: digits.induct)
  case (1 n)
  show ?case
  proof (cases "n < 10")
    case True
    then show ?thesis
      by (subst digits.simps) (simp add: decimal_value_def digit_char(1))
  next
    case False
    have "n mod 10 < 10" by simp
    with False 1 show ?thesis
      by (subst digits.simps) (simp add: decimal_value_snoc digit_char(1))
  qed
qed

lemma set_digits: "set (digits m) \<subseteq> set ''0123456789''"
proof (induction m rule: digits.induct)
  case (1 n)
  have a: "n < 10 \<Longrightarrow> ''0123456789'' ! n \<in> set ''0123456789''"
    and b: "''0123456789'' ! (n mod 10) \<in> set ''0123456789''"
    by (rule digit_char(2), simp)+
  show ?case
  proof (cases "n < 10")
    case True
    with a show ?thesis by (subst digits.simps) simp
  next
    case False
    with 1 b show ?thesis by (subst digits.simps) simp
  qed
qed

lemma hd_digits: "hd (digits m) = CHR ''0'' \<longleftrightarrow> m = 0"
proof (induction m rule: digits.induct)
  case (1 n)
  show ?case
  proof (cases "n < 10")
    case True
    then show ?thesis by (subst digits.simps) (simp add: digit_char(3))
  next
    case False
    then have "n div 10 \<noteq> 0" by simp
    with False 1 show ?thesis
      by (subst digits.simps) (simp add: digits_nonempty)
  qed
qed

lemma hd_digits_minus: "hd (digits m) \<noteq> CHR ''-''"
  using set_digits [of m] digits_nonempty [of m]
  by (cases "digits m") auto

lemma string_of_int_decimal:
  "canonical (string_of_int n) \<and> integer_of (string_of_int n) = n"
proof (cases "n < 0")
  case True
  then have "nat (- n) \<noteq> 0" by simp
  then have "hd (digits (nat (- n))) \<noteq> CHR ''0''" by (simp add: hd_digits)
  with True show ?thesis
    using set_digits [of "nat (- n)"]
    by (simp add: string_of_int_def canonical_def integer_of_def decimal_value_digits
        digits_nonempty)
next
  case False
  obtain ch r where d: "digits (nat n) = ch # r"
    using digits_nonempty [of "nat n"] by (cases "digits (nat n)") auto
  with hd_digits_minus [of "nat n"] have ch: "ch \<noteq> CHR ''-''" by simp
  have z: "ch = CHR ''0'' \<longrightarrow> ch # r = ''0''"
  proof
    assume "ch = CHR ''0''"
    with d hd_digits [of "nat n"] have "nat n = 0" by simp
    with d show "ch # r = ''0''" by (simp add: digits.simps [of 0])
  qed
  from False d ch z show ?thesis
    using set_digits [of "nat n"] decimal_value_digits [of "nat n"]
    by (simp add: string_of_int_def canonical_def integer_of_def)
qed

lemma template_decimal:
  "\<bar>n\<bar> < 2 ^ 53 \<Longrightarrow>
     canonical (template (Some (Num n))) \<and> integer_of (template (Some (Num n))) = n"
  using string_of_int_decimal [of n] by simp

section \<open>The request interceptor\<close>

text \<open>
  C7. A client constructed without authentication leaves every outgoing request
  configuration as it is: the interceptor returns its argument, headers included.
\<close>

theorem reqMiddleWare_no_auth: "\<not> auth self \<Longrightarrow> reqMiddleWare self cfg w = cfg"
  by (simp add: reqMiddleWare_def)

theorem reqMiddleWare_no_auth_witness:
  "\<not> auth (demo_client False) \<and>
   reqMiddleWare (demo_client False) demo_config
     (demo_world [ACCESS_TOKEN \<mapsto> token_cookie ''abc%def''] []) = demo_config \<and>
   headers demo_config = Some [''Accept'' \<mapsto> ''application/json'']"
  using reqMiddleWare_no_auth [of "demo_client False" demo_config
      "demo_world [ACCESS_TOKEN \<mapsto> token_cookie ''abc%def''] []"]
  by (simp add: demo_client_def demo_config_def)

text \<open>
  C6. With authentication and no access-token cookie, the interceptor sets the header
  \<open>Authorization\<close> to the string \<open>undefined\<close>; the other headers and the other fields of
  the configuration are kept.
\<close>

theorem reqMiddleWare_no_cookie:
  assumes "auth self" and "Cookie_get ACCESS_TOKEN w = None"
  shows "reqMiddleWare self cfg w =
           cfg\<lparr>headers := Some ((spread (headers cfg))(''Authorization'' \<mapsto> ''undefined''))\<rparr>"
  using assms by (simp add: reqMiddleWare_def setAuthReq_def)

theorem reqMiddleWare_no_cookie_witness:
  "auth (demo_client True) \<and> Cookie_get ACCESS_TOKEN (demo_world Map.empty []) = None \<and>
   headers (reqMiddleWare (demo_client True) demo_config (demo_world Map.empty [])) =
     Some [''Accept'' \<mapsto> ''application/json'', ''Authorization'' \<mapsto> ''undefined'']"
proof -
  have a: "auth (demo_client True)" by (simp add: demo_client_def)
  have b: "Cookie_get ACCESS_TOKEN (demo_world Map.empty []) = None"
    by (simp add: Cookie_get_def demo_world_def)
  show ?thesis
    using a b reqMiddleWare_no_cookie [OF a b, of demo_config]
    by (simp add: demo_config_def spread_def)
qed

text \<open>
  C4, as stated: the header is the cookie value with every \<open>%\<close> replaced by a space. It
  fails on a cookie with two \<open>%\<close>: for the cookie \<open>a%b%c\<close> the header is \<open>a b%c\<close>, while
  replacing every \<open>%\<close> gives \<open>a b c\<close>.
\<close>

theorem reqMiddleWare_every_percent_counterexample:
  "auth (demo_client True) \<and>
   Cookie_get ACCESS_TOKEN (demo_world [ACCESS_TOKEN \<mapsto> token_cookie ''a%b%c''] []) =
     Some ''a%b%c'' \<and>
   spread (headers (reqMiddleWare (demo_client True) demo_config
     (demo_world [ACCESS_TOKEN \<mapsto> token_cookie ''a%b%c''] []))) ''Authorization'' =
     Some ''a b%c'' \<and>
   replace_every CHR ''%'' CHR '' '' ''a%b%c'' = ''a b c'' \<and>
   spread (headers (reqMiddleWare (demo_client True) demo_config
     (demo_world [ACCESS_TOKEN \<mapsto> token_cookie ''a%b%c''] []))) ''Authorization'' \<noteq>
     Some (replace_every CHR ''%'' CHR '' '' ''a%b%c'')"
  by (simp add: demo_client_def demo_world_def demo_config_def token_cookie_def Cookie_get_def
      reqMiddleWare_def setAuthReq_def spread_def replace_every_def)

text \<open>
  C4, amended. With authentication and an access-token cookie, the interceptor sets the
  header \<open>Authorization\<close> to the cookie value with its first \<open>%\<close> replaced by a space:
  what precedes the first \<open>%\<close> and what follows it are kept as they are. For a value
  with at most one \<open>%\<close> this is the value with every \<open>%\<close> replaced; for the cookie
  \<open>abc%def\<close> the header is \<open>abc def\<close>.
\<close>

theorem reqMiddleWare_first_percent:
  assumes "auth self" and "Cookie_get ACCESS_TOKEN w = Some v"
  shows "reqMiddleWare self cfg w =
           cfg\<lparr>headers := Some ((spread (headers cfg))(''Authorization'' \<mapsto>
             takeWhile (\<lambda>x. x \<noteq> CHR ''%'') v @
             (case dropWhile (\<lambda>x. x \<noteq> CHR ''%'') v of [] \<Rightarrow> [] | _ # t \<Rightarrow> CHR '' '' # t)))\<rparr> \<and>
         (length (filter (\<lambda>x. x = CHR ''%'') v) \<le> 1 \<longrightarrow>
            spread (headers (reqMiddleWare self cfg w)) ''Authorization'' =
              Some (replace_every CHR ''%'' CHR '' '' v))"
proof -
  have r: "reqMiddleWare self cfg w =
      cfg\<lparr>headers := Some ((spread (headers cfg))(''Authorization'' \<mapsto> replace ''%'' '' '' v))\<rparr>"
    using assms by (simp add: reqMiddleWare_def setAuthReq_def)
  have f: "replace ''%'' '' '' v =
      takeWhile (\<lambda>x. x \<noteq> CHR ''%'') v @
      (case dropWhile (\<lambda>x. x \<noteq> CHR ''%'') v of [] \<Rightarrow> [] | _ # t \<Rightarrow> CHR '' '' # t)"
    by (induction v) auto
  have e: "spread (headers (reqMiddleWare self cfg w)) ''Authorization'' =
      Some (replace_every CHR ''%'' CHR '' '' v)"
    if "length (filter (\<lambda>x. x = CHR ''%'') v) \<le> 1"
    using replace_at_most_one [OF that, of "CHR '' ''"] r by (simp add: spread_def)
  from r f e show ?thesis by simp
qed

theorem reqMiddleWare_first_percent_witness:
  "auth (demo_client True) \<and>
   Cookie_get ACCESS_TOKEN (demo_world [ACCESS_TOKEN \<mapsto> token_cookie ''abc%def''] []) =
     Some ''abc%def'' \<and>
   headers (reqMiddleWare (demo_client True) demo_config
     (demo_world [ACCESS_TOKEN \<mapsto> token_cookie ''abc%def''] [])) =
     Some [''Accept'' \<mapsto> ''application/json'', ''Authorization'' \<mapsto> ''abc def'']"
proof -
  have a: "auth (demo_client True)" by (simp add: demo_client_def)
  have b: "Cookie_get ACCESS_TOKEN (demo_world [ACCESS_TOKEN \<mapsto> token_cookie ''abc%def''] [])
      = Some ''abc%def''"
    by (simp add: Cookie_get_def demo_world_def token_cookie_def)
  show ?thesis
    using a b reqMiddleWare_first_percent [OF a b, of demo_config]
    by (simp add: demo_config_def spread_def)
qed

section \<open>The response interceptor on a response\<close>

text \<open>
  C5, as stated: whenever the header \<open>authorization\<close> is present, the access-token
  cookie is set to it. A header that is present and empty is not written: the guard of
  the source is the truthiness of the header. The response below carries an empty
  \<open>authorization\<close> header and the jar has no access-token cookie afterwards.
\<close>

theorem resMiddleWare_empty_header_counterexample:
  "res_headers (demo_response 200 [''authorization'' \<mapsto> ''''] Nullish) ''authorization'' =
     Some '''' \<and>
   jar (snd (resMiddleWare demo_constants (demo_response 200 [''authorization'' \<mapsto> ''''] Nullish)
     (demo_world Map.empty []))) ACCESS_TOKEN = None"
  by (simp add: demo_response_def demo_world_def resMiddleWare_def new_Date_def)

text \<open>
  C5, amended. For every response, the interceptor returns the response as it is. A header
  \<open>authorization\<close> that is present and not empty becomes the access-token cookie, with
  the default options and the expiry \<open>now + ACCESS_TOKEN\<close>; a header \<open>refreshtoken\<close> that
  is present and not empty becomes the refresh-token cookie, with the expiry
  \<open>now + REFRESH_TOKEN\<close>; a header that is absent or empty leaves its cookie as it was.
  Each cookie depends on its own header only. Here \<open>now\<close> is the clock reading taken for
  that expiry: the second reading of the call for the access token, the fourth for the
  refresh token.
\<close>

theorem resMiddleWare_cookies:
  "fst (resMiddleWare c res w) = res \<and>
   jar (snd (resMiddleWare c res w)) ACCESS_TOKEN =
     (case res_headers res ''authorization'' of
        None \<Rightarrow> jar w ACCESS_TOKEN
      | Some v \<Rightarrow>
          if v = [] then jar w ACCESS_TOKEN
          else Some \<lparr>cvalue = v, options = (COOKIE_CONFIG_DEFAULT c)
                 (''expires'' \<mapsto> Date (clock w (reads w + 1) + COOKIE_EXPIRE_ACCESS_TOKEN c))\<rparr>) \<and>
   jar (snd (resMiddleWare c res w)) REFRESH_TOKEN =
     (case res_headers res ''refreshtoken'' of
        None \<Rightarrow> jar w REFRESH_TOKEN
      | Some v \<Rightarrow>
          if v = [] then jar w REFRESH_TOKEN
          else Some \<lparr>cvalue = v, options = (COOKIE_CONFIG_DEFAULT c)
                 (''expires'' \<mapsto> Date (clock w (reads w + 3) + COOKIE_EXPIRE_REFRESH_TOKEN c))\<rparr>) \<and>
   clock (snd (resMiddleWare c res w)) = clock w \<and>
   net (snd (resMiddleWare c res w)) = net w"
  by (simp add: resMiddleWare_def Let_def new_Date_def Cookie_set_def numeral_3_eq_3
      split: option.split)

theorem resMiddleWare_cookies_witness:
  "fst (resMiddleWare demo_constants
      (demo_response 200 [''authorization'' \<mapsto> ''tok1'', ''refreshtoken'' \<mapsto> ''tok2''] Nullish)
      (demo_world Map.empty [])) =
     demo_response 200 [''authorization'' \<mapsto> ''tok1'', ''refreshtoken'' \<mapsto> ''tok2''] Nullish \<and>
   jar (snd (resMiddleWare demo_constants
      (demo_response 200 [''authorization'' \<mapsto> ''tok1'', ''refreshtoken'' \<mapsto> ''tok2''] Nullish)
      (demo_world Map.empty []))) ACCESS_TOKEN =
     Some \<lparr>cvalue = ''tok1'', options = [''path'' \<mapsto> Text ''/'', ''expires'' \<mapsto> Date 1805001]\<rparr> \<and>
   jar (snd (resMiddleWare demo_constants
      (demo_response 200 [''authorization'' \<mapsto> ''tok1'', ''refreshtoken'' \<mapsto> ''tok2''] Nullish)
      (demo_world Map.empty []))) REFRESH_TOKEN =
     Some \<lparr>cvalue = ''tok2'',
           options = [''path'' \<mapsto> Text ''/'', ''expires'' \<mapsto> Date 1209605003]\<rparr>"
  using resMiddleWare_cookies [of demo_constants
      "demo_response 200 [''authorization'' \<mapsto> ''tok1'', ''refreshtoken'' \<mapsto> ''tok2''] Nullish"
      "demo_world Map.empty []"]
  by (simp add: demo_response_def demo_world_def demo_constants_def)

section \<open>The response interceptor on a rejection\<close>

text \<open>
  C2. A rejection that carries a response with the token-expired status is answered by
  the refresh procedure, called with the configuration of the rejected request, and the
  promise of the procedure is the result. Every other rejection (no response, or a response
  with another status) is the result itself, and the world is left as it was.
\<close>

theorem resOnError_dispatch:
  "(\<forall>r cfg. error = AxiosError (Some r) cfg \<and> status r = STATUS_CODE_TOKEN_EXPIRE c \<longrightarrow>
      resOnError c self error w = getNewToken c self cfg w) \<and>
   ((\<nexists>r cfg. error = AxiosError (Some r) cfg \<and> status r = STATUS_CODE_TOKEN_EXPIRE c) \<longrightarrow>
      resOnError c self error w = (Some (Inl error), w))"
  by (auto simp: resOnError_def split: rejection.split option.split)

theorem resOnError_dispatch_witness:
  "resOnError demo_constants (demo_client True) demo_expired (demo_world demo_jar [Inl demo_failure]) =
     getNewToken demo_constants (demo_client True) demo_config (demo_world demo_jar [Inl demo_failure]) \<and>
   map url (sent (net (snd (resOnError demo_constants (demo_client True) demo_expired
     (demo_world demo_jar [Inl demo_failure]))))) = [''/auth/token''] \<and>
   resOnError demo_constants (demo_client True) server_error (demo_world demo_jar [Inl demo_failure]) =
     (Some (Inl server_error), demo_world demo_jar [Inl demo_failure]) \<and>
   resOnError demo_constants (demo_client True) demo_failure (demo_world demo_jar [Inl demo_failure]) =
     (Some (Inl demo_failure), demo_world demo_jar [Inl demo_failure])"
  using resOnError_dispatch [of demo_expired demo_constants "demo_client True"
      "demo_world demo_jar [Inl demo_failure]"]
    resOnError_dispatch [of server_error demo_constants "demo_client True"
      "demo_world demo_jar [Inl demo_failure]"]
    resOnError_dispatch [of demo_failure demo_constants "demo_client True"
      "demo_world demo_jar [Inl demo_failure]"]
  by (simp add: demo_constants_def demo_client_def demo_world_def demo_response_def
      demo_expired_def demo_failure_def server_error_def
      resOnError_def getNewToken_def instance_post_def scripted_def)

section \<open>The refresh procedure\<close>

text \<open>
  C1. Let a request be rejected with the token-expired status, and let the refresh request
  resolve with a body whose field \<open>accessToken\<close> is a non-empty string. Then the retried
  request is issued in a world \<open>w'\<close> that differs from the world the refresh request
  left in the access-token cookie and in two clock readings: the cookie holds the new token
  with the default options and the expiry \<open>now + REFRESH_TOKEN\<close>, the refresh-token
  lifetime, where \<open>now\<close> is the second of the two readings. The retried configuration is
  the original one with the header \<open>Authorization\<close> computed from that cookie, as the
  request interceptor computes it, and the promise of the retried request is what the
  caller receives in place of the rejection.
\<close>

theorem refresh_then_retry:
  assumes "status r = STATUS_CODE_TOKEN_EXPIRE c"
    and "instance_post (axios_instance self) (COOKIE_API_PATH_GET_NEW_ACCESS_TOKEN c)
           (refresh_body (Cookie_get REFRESH_TOKEN w)) w = (Some (Inr resp), w1)"
    and "get_field (res_data resp) ''accessToken'' = Inr (Some tok)"
    and "tok \<noteq> []"
  shows "\<exists>w'. jar w' = (jar w1)(ACCESS_TOKEN \<mapsto>
                 \<lparr>cvalue = tok, options = (COOKIE_CONFIG_DEFAULT c)(''expires'' \<mapsto>
                    Date (clock w1 (reads w1 + 1) + COOKIE_EXPIRE_REFRESH_TOKEN c))\<rparr>) \<and>
              clock w' = clock w1 \<and> reads w' = reads w1 + 2 \<and> net w' = net w1 \<and>
              Cookie_get ACCESS_TOKEN w' = Some tok \<and>
              setAuthReq cfg w' =
                cfg\<lparr>headers := Some ((spread (headers cfg))
                  (''Authorization'' \<mapsto> replace ''%'' '' '' tok))\<rparr> \<and>
              resOnError c self (AxiosError (Some r) cfg) w =
                axios_instance self (setAuthReq cfg w') w'"
proof -
  let ?w' = "Cookie_set ACCESS_TOKEN tok
      ((COOKIE_CONFIG_DEFAULT c)(''expires'' \<mapsto>
         Date (clock w1 (reads w1 + 1) + COOKIE_EXPIRE_REFRESH_TOKEN c)))
      (w1\<lparr>reads := reads w1 + 2\<rparr>)"
  have "resOnError c self (AxiosError (Some r) cfg) w = axios_instance self (setAuthReq cfg ?w') ?w'"
    using assms getNewToken_resolved [OF assms(2,3), of cfg]
    by (simp add: resOnError_expired Let_def)
  moreover have "Cookie_get ACCESS_TOKEN ?w' = Some tok"
    by (simp add: Cookie_get_def Cookie_set_def)
  moreover have "setAuthReq cfg ?w' =
      cfg\<lparr>headers := Some ((spread (headers cfg))(''Authorization'' \<mapsto> replace ''%'' '' '' tok))\<rparr>"
    by (simp add: setAuthReq_def Cookie_get_def Cookie_set_def)
  moreover have "jar ?w' = (jar w1)(ACCESS_TOKEN \<mapsto>
                 \<lparr>cvalue = tok, options = (COOKIE_CONFIG_DEFAULT c)(''expires'' \<mapsto>
                    Date (clock w1 (reads w1 + 1) + COOKIE_EXPIRE_REFRESH_TOKEN c))\<rparr>)"
    "clock ?w' = clock w1" "reads ?w' = reads w1 + 2" "net ?w' = net w1"
    by (simp_all add: Cookie_set_def)
  ultimately show ?thesis by blast
qed

theorem refresh_then_retry_witness:
  "fst (resOnError demo_constants (demo_client True) demo_expired
          (demo_world demo_jar [Inr token_response, Inr ok_response])) = Some (Inr ok_response) \<and>
   jar (snd (resOnError demo_constants (demo_client True) demo_expired
          (demo_world demo_jar [Inr token_response, Inr ok_response]))) ACCESS_TOKEN =
     Some \<lparr>cvalue = ''new%tok'',
           options = [''path'' \<mapsto> Text ''/'', ''expires'' \<mapsto> Date 1209605001]\<rparr> \<and>
   map (\<lambda>cfg. (url cfg, spread (headers cfg) ''Authorization''))
     (sent (net (snd (resOnError demo_constants (demo_client True) demo_expired
          (demo_world demo_jar [Inr token_response, Inr ok_response]))))) =
     [(''/auth/token'', None), (''items'', Some ''new tok'')]"
proof -
  let ?w = "demo_world demo_jar [Inr token_response, Inr ok_response]"
  let ?p = "instance_post (axios_instance (demo_client True))
      (COOKIE_API_PATH_GET_NEW_ACCESS_TOKEN demo_constants)
      (refresh_body (Cookie_get REFRESH_TOKEN ?w)) ?w"
  have h1: "status (demo_response 401 Map.empty Nullish) = STATUS_CODE_TOKEN_EXPIRE demo_constants"
    by (simp add: demo_response_def demo_constants_def)
  have h2: "?p = (Some (Inr token_response), snd ?p)"
    by (simp add: demo_client_def demo_world_def instance_post_def scripted_def)
  have h3: "get_field (res_data token_response) ''accessToken'' = Inr (Some ''new%tok'')"
    by (simp add: token_response_def demo_response_def)
  have h4: "''new%tok'' \<noteq> []" by simp
  show ?thesis
    using refresh_then_retry [OF h1 h2 h3 h4, of demo_config]
    by (simp add: demo_constants_def demo_client_def demo_world_def demo_config_def
        demo_response_def demo_expired_def token_response_def ok_response_def
        resOnError_def getNewToken_def instance_post_def scripted_def new_Date_def
        Cookie_get_def Cookie_set_def spread_def)
qed

text \<open>
  C3, as stated: once the refresh request or the retried request is rejected, the caller
  receives that rejection and there is no retry beyond the single refresh attempt. The two
  requests go through the instance on which \<open>resOnError\<close> is registered, so a rejection
  with the token-expired status starts the procedure again. On a client with its
  interceptors installed, a refresh request answered by 401, 401 and 500 is sent three
  times and the caller receives the 500; a retried request answered by 401 is followed by
  a second refresh request and a second retry, whose response the caller receives.
\<close>

theorem refresh_reenters_counterexample:
  "(case fst (resOnError demo_constants (new_Axios 3 demo_constants dispatch True) demo_expired
       (demo_world demo_jar [Inl demo_expired, Inl demo_expired, Inl server_error])) of
      Some (Inl (AxiosError (Some r) cfg)) \<Rightarrow> (status r, url cfg)
    | _ \<Rightarrow> (0, [])) = (500, ''/auth/token'') \<and>
   map url (sent (net (snd (resOnError demo_constants (new_Axios 3 demo_constants dispatch True)
       demo_expired
       (demo_world demo_jar [Inl demo_expired, Inl demo_expired, Inl server_error]))))) =
     [''/auth/token'', ''/auth/token'', ''/auth/token''] \<and>
   fst (resOnError demo_constants (new_Axios 3 demo_constants dispatch True) demo_expired
       (demo_world demo_jar [Inr token_response, Inl demo_expired, Inr token_response,
          Inr ok_response])) = Some (Inr ok_response) \<and>
   map url (sent (net (snd (resOnError demo_constants (new_Axios 3 demo_constants dispatch True)
       demo_expired
       (demo_world demo_jar [Inr token_response, Inl demo_expired, Inr token_response,
          Inr ok_response]))))) =
     [''/auth/token'', ''items'', ''/auth/token'', ''items'']"
  by (simp add: eval_nat_numeral new_Axios_def dispatch_def scripted_def
      demo_constants_def demo_world_def demo_config_def demo_response_def demo_expired_def
      server_error_def token_response_def ok_response_def demo_jar_def token_cookie_def
      resOnError_def getNewToken_def instance_post_def reqMiddleWare_def setAuthReq_def
      resMiddleWare_def new_Date_def Cookie_get_def Cookie_set_def spread_def Let_def)

text \<open>
  C3, amended. Take a client with its interceptors installed (any bound of at least one)
  and a request rejected with the token-expired status. If the adapter rejects the refresh
  request without the token-expired status (no response, or another status), the caller
  receives that rejection in place of the original one, and the world is the one the
  adapter left: nothing is read, written or sent after it. If the refresh request resolves
  with a body other than \<open>null\<close> and \<open>undefined\<close> and the adapter rejects the retried
  request without the token-expired status, the caller receives that rejection, and again
  nothing follows it. A refresh request or a retried request that the adapter rejects with
  the token-expired status is answered by a further run of the refresh procedure, with the
  configuration of the rejected request: its result is the promise of the refresh request
  in the first case and what the caller receives in the second.
\<close>

theorem refresh_failure_on_instance:
  fixes adapter :: "'n transport"
  assumes self: "self = new_Axios (Suc n) c adapter isAuthReq"
    and inner: "inner = new_Axios n c adapter isAuthReq"
    and expired: "status r = STATUS_CODE_TOKEN_EXPIRE c"
    and w4: "w4 = refreshed c a (snd (resMiddleWare c resp w1'))"
  shows "(adapter (reqMiddleWare self (refresh_request c w) w) w = (Some (Inl e), w1) \<and>
          \<not> token_expired c e \<longrightarrow>
            resOnError c self (AxiosError (Some r) cfg) w = (Some (Inl e), w1)) \<and>
         (adapter (reqMiddleWare self (refresh_request c w) w) w =
            (Some (Inl (AxiosError (Some r') cfg')), w1) \<and>
          status r' = STATUS_CODE_TOKEN_EXPIRE c \<longrightarrow>
            axios_instance self (refresh_request c w) w = getNewToken c inner cfg' w1) \<and>
         (adapter (reqMiddleWare self (refresh_request c w) w) w = (Some (Inr resp), w1') \<and>
          get_field (res_data resp) ''accessToken'' = Inr a \<and>
          adapter (reqMiddleWare self (setAuthReq cfg w4) w4) w4 = (Some (Inl e'), w5) \<and>
          \<not> token_expired c e' \<longrightarrow>
            resOnError c self (AxiosError (Some r) cfg) w = (Some (Inl e'), w5)) \<and>
         (adapter (reqMiddleWare self (refresh_request c w) w) w = (Some (Inr resp), w1') \<and>
          get_field (res_data resp) ''accessToken'' = Inr a \<and>
          adapter (reqMiddleWare self (setAuthReq cfg w4) w4) w4 =
            (Some (Inl (AxiosError (Some r'') cfg'')), w5) \<and>
          status r'' = STATUS_CODE_TOKEN_EXPIRE c \<longrightarrow>
            resOnError c self (AxiosError (Some r) cfg) w = getNewToken c inner cfg'' w5)"
proof -
  let ?refresh = "refresh_request c w"
  have step: "axios_instance self x v =
      (case adapter (reqMiddleWare self x v) v of
         (None, v1) \<Rightarrow> (None, v1)
       | (Some (Inl error), v1) \<Rightarrow> resOnError c inner error v1
       | (Some (Inr res), v1) \<Rightarrow> (Some (Inr res), snd (resMiddleWare c res v1)))" for x v
    unfolding self inner
    by (simp only: instance_step reqMiddleWare_new_Axios)
  have post: "instance_post (axios_instance self) (COOKIE_API_PATH_GET_NEW_ACCESS_TOKEN c)
      (refresh_body (Cookie_get REFRESH_TOKEN w)) w = axios_instance self ?refresh w"
    by (simp add: instance_post_def refresh_request_def)
  have start: "resOnError c self (AxiosError (Some r) cfg) w = getNewToken c self cfg w"
    using expired by (rule resOnError_expired)
  have p1: "resOnError c self (AxiosError (Some r) cfg) w = (Some (Inl e), w1)"
    if "adapter (reqMiddleWare self ?refresh w) w = (Some (Inl e), w1)" "\<not> token_expired c e"
  proof -
    from that have "axios_instance self ?refresh w = (Some (Inl e), w1)"
      by (simp add: step resOnError_not_expired)
    with post start show ?thesis by (simp add: getNewToken_rejected)
  qed
  have p2: "axios_instance self ?refresh w = getNewToken c inner cfg' w1"
    if "adapter (reqMiddleWare self ?refresh w) w = (Some (Inl (AxiosError (Some r') cfg')), w1)"
      "status r' = STATUS_CODE_TOKEN_EXPIRE c"
    using that by (simp add: step resOnError_expired)
  have retry: "resOnError c self (AxiosError (Some r) cfg) w =
      axios_instance self (setAuthReq cfg w4) w4"
    if "adapter (reqMiddleWare self ?refresh w) w = (Some (Inr resp), w1')"
      "get_field (res_data resp) ''accessToken'' = Inr a"
  proof -
    from that(1) have "axios_instance self ?refresh w =
        (Some (Inr resp), snd (resMiddleWare c resp w1'))"
      by (simp add: step)
    from getNewToken_retries [OF this that(2), of cfg] start w4 show ?thesis
      by simp
  qed
  have p3: "resOnError c self (AxiosError (Some r) cfg) w = (Some (Inl e'), w5)"
    if "adapter (reqMiddleWare self ?refresh w) w = (Some (Inr resp), w1')"
      "get_field (res_data resp) ''accessToken'' = Inr a"
      "adapter (reqMiddleWare self (setAuthReq cfg w4) w4) w4 = (Some (Inl e'), w5)"
      "\<not> token_expired c e'"
    using retry [OF that(1,2)] that(3,4) by (simp add: step resOnError_not_expired)
  have p4: "resOnError c self (AxiosError (Some r) cfg) w = getNewToken c inner cfg'' w5"
    if "adapter (reqMiddleWare self ?refresh w) w = (Some (Inr resp), w1')"
      "get_field (res_data resp) ''accessToken'' = Inr a"
      "adapter (reqMiddleWare self (setAuthReq cfg w4) w4) w4 =
         (Some (Inl (AxiosError (Some r'') cfg'')), w5)"
      "status r'' = STATUS_CODE_TOKEN_EXPIRE c"
    using retry [OF that(1,2)] that(3,4) by (simp add: step resOnError_expired)
  from p1 p2 p3 p4 show ?thesis by blast
qed

theorem refresh_failure_on_instance_witness:
  "(case fst (resOnError demo_constants (new_Axios (Suc 0) demo_constants dispatch True)
       demo_expired (demo_world demo_jar [Inl demo_failure, Inr ok_response])) of
      Some (Inl (AxiosError None cfg)) \<Rightarrow> url cfg
    | _ \<Rightarrow> []) = ''/auth/token'' \<and>
   map url (sent (net (snd (resOnError demo_constants
       (new_Axios (Suc 0) demo_constants dispatch True) demo_expired
       (demo_world demo_jar [Inl demo_failure, Inr ok_response]))))) = [''/auth/token''] \<and>
   replies (net (snd (resOnError demo_constants
       (new_Axios (Suc 0) demo_constants dispatch True) demo_expired
       (demo_world demo_jar [Inl demo_failure, Inr ok_response])))) = [Inr ok_response] \<and>
   (case fst (resOnError demo_constants (new_Axios (Suc 0) demo_constants dispatch True)
       demo_expired (demo_world demo_jar [Inr token_response, Inl server_error, Inr ok_response])) of
      Some (Inl (AxiosError (Some r) cfg)) \<Rightarrow> (status r, url cfg)
    | _ \<Rightarrow> (0, [])) = (500, ''items'') \<and>
   map url (sent (net (snd (resOnError demo_constants
       (new_Axios (Suc 0) demo_constants dispatch True) demo_expired
       (demo_world demo_jar [Inr token_response, Inl server_error, Inr ok_response]))))) =
     [''/auth/token'', ''items''] \<and>
   replies (net (snd (resOnError demo_constants
       (new_Axios (Suc 0) demo_constants dispatch True) demo_expired
       (demo_world demo_jar [Inr token_response, Inl server_error, Inr ok_response])))) =
     [Inr ok_response]"
proof -
  let ?c = demo_constants
  let ?self = "new_Axios (Suc 0) ?c dispatch True"
  let ?r = "demo_response 401 Map.empty Nullish"
  note run_defs = dispatch_def scripted_def reqMiddleWare_def new_Axios_def setAuthReq_def
    refresh_request_def refreshed_def resMiddleWare_def new_Date_def Cookie_get_def
    Cookie_set_def spread_def Let_def demo_constants_def demo_world_def demo_config_def
    demo_response_def demo_jar_def token_cookie_def
  have h: "status ?r = STATUS_CODE_TOKEN_EXPIRE ?c"
    by (simp add: demo_response_def demo_constants_def)
  let ?w = "demo_world demo_jar [Inl demo_failure, Inr ok_response]"
  let ?sent = "reqMiddleWare ?self (refresh_request ?c ?w) ?w"
  have ad: "dispatch ?sent ?w = (Some (Inl (AxiosError None ?sent)), snd (dispatch ?sent ?w))"
    by (simp add: run_defs demo_failure_def)
  have ne: "\<not> token_expired ?c (AxiosError None ?sent)"
    by (simp add: token_expired_def)
  have r1: "resOnError ?c ?self (AxiosError (Some ?r) demo_config) ?w =
      (Some (Inl (AxiosError None ?sent)), snd (dispatch ?sent ?w))"
    by (rule refresh_failure_on_instance [where n = 0 and c = ?c and adapter = dispatch
          and isAuthReq = True, OF refl refl h refl, THEN conjunct1, THEN mp,
          OF conjI [OF ad ne]])
  have e1: "url ?sent = ''/auth/token''"
    "map url (sent (net (snd (dispatch ?sent ?w)))) = [''/auth/token'']"
    "replies (net (snd (dispatch ?sent ?w))) = [Inr ok_response]"
    by (simp_all add: run_defs demo_failure_def)
  let ?v = "demo_world demo_jar [Inr token_response, Inl server_error, Inr ok_response]"
  let ?post = "reqMiddleWare ?self (refresh_request ?c ?v) ?v"
  let ?v1 = "snd (dispatch ?post ?v)"
  let ?v4 = "refreshed ?c (Some ''new%tok'') (snd (resMiddleWare ?c token_response ?v1))"
  let ?again = "reqMiddleWare ?self (setAuthReq demo_config ?v4) ?v4"
  let ?e = "AxiosError (Some (demo_response 500 Map.empty Nullish)) ?again"
  have ad1: "dispatch ?post ?v = (Some (Inr token_response), ?v1)"
    by (simp add: run_defs)
  have gf: "get_field (res_data token_response) ''accessToken'' = Inr (Some ''new%tok'')"
    by (simp add: token_response_def demo_response_def)
  have ad2: "dispatch ?again ?v4 = (Some (Inl ?e), snd (dispatch ?again ?v4))"
    by (simp add: run_defs token_response_def server_error_def)
  have ne2: "\<not> token_expired ?c ?e"
    by (simp add: token_expired_def demo_response_def demo_constants_def)
  have r2: "resOnError ?c ?self (AxiosError (Some ?r) demo_config) ?v =
      (Some (Inl ?e), snd (dispatch ?again ?v4))"
    by (rule refresh_failure_on_instance [where n = 0 and c = ?c and adapter = dispatch
          and isAuthReq = True, OF refl refl h refl, THEN conjunct2, THEN conjunct2,
          THEN conjunct1, THEN mp, OF conjI [OF ad1 conjI [OF gf conjI [OF ad2 ne2]]]])
  have e2: "url ?again = ''items''"
    "map url (sent (net (snd (dispatch ?again ?v4)))) = [''/auth/token'', ''items'']"
    "replies (net (snd (dispatch ?again ?v4))) = [Inr ok_response]"
    by (simp_all add: run_defs token_response_def server_error_def)
  from r1 e1 r2 e2 show ?thesis
    by (simp add: demo_expired_def demo_response_def)
qed




section \<open>The verb methods\<close>

text \<open>
  C8. \<open>put\<close> sends one request with the method \<open>PUT\<close> and the data given. Its URL is
  \<open>endPoint/id\<close> when \<open>id\<close> is truthy, the empty string or zero, and the bare
  \<open>endPoint\<close> otherwise; the two never coincide, so the URL is \<open>endPoint/id\<close> exactly
  in the first case. Among the identifiers of the model the condition fails for
  \<open>undefined\<close> and \<open>NaN\<close> only. In the URL a string stands as it is and an integer of
  magnitude below \<open>2^53\<close> stands in decimal notation. For the end point \<open>items\<close> the
  identifier \<open>0\<close> gives \<open>items/0\<close>, no identifier gives \<open>items\<close> and the empty string
  gives \<open>items/\<close>.
\<close>

theorem put_url:
  "put c self endPoint d id' w =
     axios_instance self
       \<lparr>http_method = METHOD_PUT c,
        url = (if truthy id' \<or> id' = Some (Str []) \<or> id' = Some (Num 0)
               then endPoint @ ''/'' @ template id' else endPoint),
        params = None, data = Some d, headers = None\<rparr> w \<and>
   endPoint @ ''/'' @ template id' \<noteq> endPoint \<and>
   ((truthy id' \<or> id' = Some (Str []) \<or> id' = Some (Num 0)) \<longleftrightarrow>
      id' \<noteq> None \<and> id' \<noteq> Some NaN) \<and>
   (id' = Some (Str s) \<longrightarrow> template id' = s) \<and>
   (id' = Some (Num n) \<and> \<bar>n\<bar> < 2 ^ 53 \<longrightarrow>
      canonical (template id') \<and> integer_of (template id') = n) \<and>
   put c self ''items'' d (Some (Num 0)) w =
     axios_instance self
       \<lparr>http_method = METHOD_PUT c, url = ''items/0'', params = None, data = Some d,
        headers = None\<rparr> w \<and>
   put c self ''items'' d None w =
     axios_instance self
       \<lparr>http_method = METHOD_PUT c, url = ''items'', params = None, data = Some d,
        headers = None\<rparr> w \<and>
   put c self ''items'' d (Some (Str [])) w =
     axios_instance self
       \<lparr>http_method = METHOD_PUT c, url = ''items/'', params = None, data = Some d,
        headers = None\<rparr> w"
proof -
  have cond: "(truthy id' \<or> id' = Some (Str []) \<or> id' = Some (Num 0)) \<longleftrightarrow>
      id' \<noteq> None \<and> id' \<noteq> Some NaN"
    by (cases id' rule: truthy.cases) auto
  have num: "id' = Some (Num n) \<and> \<bar>n\<bar> < 2 ^ 53 \<longrightarrow>
      canonical (template id') \<and> integer_of (template id') = n"
    using template_decimal [of n] by blast
  have zero: "template (Some (Num 0)) = ''0''"
    by (simp add: string_of_int_def digits.simps)
  from cond num show ?thesis
    by (simp add: put_def zero del: template.simps(2))
qed

theorem put_url_witness:
  "map url (sent (net (snd (put demo_constants (demo_client False) ''items''
      (Object [''name'' \<mapsto> ''x'']) (Some (Num 7)) (demo_world Map.empty []))))) = [''items/7''] \<and>
   map url (sent (net (snd (put demo_constants (demo_client False) ''items''
      (Object [''name'' \<mapsto> ''x'']) (Some NaN) (demo_world Map.empty []))))) = [''items''] \<and>
   map url (sent (net (snd (put demo_constants (demo_client False) ''items''
      (Object [''name'' \<mapsto> ''x'']) (Some (Str ''a1'')) (demo_world Map.empty []))))) =
     [''items/a1''] \<and>
   \<bar>7::int\<bar> < 2 ^ 53 \<and> canonical ''7'' \<and> integer_of ''7'' = 7"
  using put_url [of demo_constants "demo_client False" "''items''" "Object [''name'' \<mapsto> ''x'']"
      "Some (Num 7)" "demo_world Map.empty []" "[]" 7]
    put_url [of demo_constants "demo_client False" "''items''" "Object [''name'' \<mapsto> ''x'']"
      "Some NaN" "demo_world Map.empty []"]
    put_url [of demo_constants "demo_client False" "''items''" "Object [''name'' \<mapsto> ''x'']"
      "Some (Str ''a1'')" "demo_world Map.empty []" "''a1''"]
  by (simp add: demo_client_def demo_world_def scripted_def string_of_int_def digits.simps)

text \<open>
  C9. \<open>getByParams\<close> sends one request with the method \<open>GET\<close> to \<open>endPoint/params\<close>
  and no query parameters, where a string stands as it is and an integer of magnitude
  below \<open>2^53\<close> stands in decimal notation; \<open>getByQuery\<close> sends one request with the
  method \<open>GET\<close> to the bare \<open>endPoint\<close> whose query parameters are the entries of the
  query object. For the end point \<open>items\<close>, the parameter \<open>42\<close> gives the URL
  \<open>items/42\<close>, and the query \<open>{q: "a"}\<close> gives the URL \<open>items\<close> with the query
  parameter \<open>q = a\<close>.
\<close>

theorem get_urls:
  "getByParams c self endPoint ps w =
     axios_instance self
       \<lparr>http_method = METHOD_GET c, url = endPoint @ ''/'' @ template (Some ps), params = None,
        data = None, headers = None\<rparr> w \<and>
   (ps = Str s \<longrightarrow> template (Some ps) = s) \<and>
   (ps = Num n \<and> \<bar>n\<bar> < 2 ^ 53 \<longrightarrow>
      canonical (template (Some ps)) \<and> integer_of (template (Some ps)) = n) \<and>
   getByQuery c self endPoint query w =
     axios_instance self
       \<lparr>http_method = METHOD_GET c, url = endPoint, params = Some query, data = None,
        headers = None\<rparr> w \<and>
   getByParams c self ''items'' (Num 42) w =
     axios_instance self
       \<lparr>http_method = METHOD_GET c, url = ''items/42'', params = None, data = None,
        headers = None\<rparr> w \<and>
   getByQuery c self ''items'' [''q'' \<mapsto> Str ''a''] w =
     axios_instance self
       \<lparr>http_method = METHOD_GET c, url = ''items'', params = Some [''q'' \<mapsto> Str ''a''],
        data = None, headers = None\<rparr> w"
proof -
  have num: "ps = Num n \<and> \<bar>n\<bar> < 2 ^ 53 \<longrightarrow>
      canonical (template (Some ps)) \<and> integer_of (template (Some ps)) = n"
    using template_decimal [of n] by blast
  have example: "template (Some (Num 42)) = ''42''"
    by (simp add: string_of_int_def digits.simps)
  from num show ?thesis
    by (simp add: getByParams_def getByQuery_def spread_def example del: template.simps(2))
qed

theorem get_urls_witness:
  "map (\<lambda>cfg. (http_method cfg, url cfg, params cfg = None))
     (sent (net (snd (getByParams demo_constants (demo_client False) ''items'' (Num 1234)
        (demo_world Map.empty []))))) = [(''get'', ''items/1234'', True)] \<and>
   \<bar>1234::int\<bar> < 2 ^ 53 \<and> canonical ''1234'' \<and> integer_of ''1234'' = 1234 \<and>
   map (\<lambda>cfg. (http_method cfg, url cfg, spread (params cfg) ''q''))
     (sent (net (snd (getByQuery demo_constants (demo_client False) ''items'' [''q'' \<mapsto> Str ''a'']
        (demo_world Map.empty []))))) = [(''get'', ''items'', Some (Str ''a''))]"
  using get_urls [of demo_constants "demo_client False" "''items''" "Num 1234"
      "demo_world Map.empty []" "[]" 1234 "[''q'' \<mapsto> Str ''a'']"]
  by (simp add: demo_constants_def demo_client_def demo_world_def scripted_def spread_def
      string_of_int_def digits.simps)

end
